theory Spec2Isabelle
  imports Complex_Main
begin

section \<open>The renderer services of osltoy (osltoyrenderer.cpp)\<close>

text \<open>
  A shallow embedding of \<^verbatim>\<open>OSLToyRenderer\<close>. The C++ object is a record that every
  member function takes and, where it mutates \<^verbatim>\<open>this\<close>, returns updated. A member
  function that reports through a \<^verbatim>\<open>bool\<close> and an output parameter takes the old
  contents of that parameter and returns the pair of the \<^verbatim>\<open>bool\<close> and the new
  contents, so that a path that returns \<^verbatim>\<open>false\<close> after a write would be visible.

  Numbers. C++ \<^verbatim>\<open>float\<close> and \<^verbatim>\<open>double\<close> are idealised as \<^typ>\<open>real\<close>: rounding,
  overflow, infinities and NaN are outside the model, \<^verbatim>\<open>tanf\<close> is \<^const>\<open>tan\<close> and
  \<^verbatim>\<open>M_PI\<close> is \<^const>\<open>pi\<close>. HOL's \<open>x / 0 = 0\<close> is not what IEEE division does, so
  a statement about a quotient's value carries the hypothesis that the divisor is not
  zero. C++ \<^verbatim>\<open>int\<close> is \<^typ>\<open>int\<close>: the code only stores, compares and converts
  integers, it never computes with them.

  Names. A \<^verbatim>\<open>ustringhash\<close> is identified with the string it is the hash of (the
  hash is taken to be injective, as the interning table behind it assumes).
\<close>

type_synonym ustringhash = string

subsection \<open>Interned names\<close>

text \<open>
  Modelled from the spec: the string tables \<^verbatim>\<open>OSL::Hashes\<close> (OSL/hashes.h) and
  \<^verbatim>\<open>RS::Hashes\<close> (rs_strdecls.h), which osltoyrenderer.cpp includes. Each constant is
  the string that the identifier in the code stands for; the specification names the
  spaces "camera", "screen", "NDC" and "raster", the scope "mouse", the attributes
  "s" and "t" and "camera:resolution", after which the other camera attributes are
  spelt. What the claims need of these strings is that they are distinct.
\<close>

definition Hashes_camera :: ustringhash where "Hashes_camera = ''camera''"
definition Hashes_screen :: ustringhash where "Hashes_screen = ''screen''"
definition Hashes_NDC :: ustringhash where "Hashes_NDC = ''NDC''"
definition Hashes_raster :: ustringhash where "Hashes_raster = ''raster''"
definition Hashes_perspective :: ustringhash where "Hashes_perspective = ''perspective''"
definition Hashes_mouse :: ustringhash where "Hashes_mouse = ''mouse''"
definition Hashes_s :: ustringhash where "Hashes_s = ''s''"
definition Hashes_t :: ustringhash where "Hashes_t = ''t''"
definition Hashes_options :: ustringhash where "Hashes_options = ''options''"
definition Hashes_blahblah :: ustringhash where "Hashes_blahblah = ''blahblah''"
definition Hashes_osl_version :: ustringhash where "Hashes_osl_version = ''osl:version''"
definition Hashes_camera_resolution :: ustringhash where
  "Hashes_camera_resolution = ''camera:resolution''"
definition Hashes_camera_projection :: ustringhash where
  "Hashes_camera_projection = ''camera:projection''"
definition Hashes_camera_pixelaspect :: ustringhash where
  "Hashes_camera_pixelaspect = ''camera:pixelaspect''"
definition Hashes_camera_screen_window :: ustringhash where
  "Hashes_camera_screen_window = ''camera:screen_window''"
definition Hashes_camera_fov :: ustringhash where "Hashes_camera_fov = ''camera:fov''"
definition Hashes_camera_clip :: ustringhash where "Hashes_camera_clip = ''camera:clip''"
definition Hashes_camera_clip_near :: ustringhash where
  "Hashes_camera_clip_near = ''camera:clip_near''"
definition Hashes_camera_clip_far :: ustringhash where
  "Hashes_camera_clip_far = ''camera:clip_far''"
definition Hashes_camera_shutter :: ustringhash where
  "Hashes_camera_shutter = ''camera:shutter''"
definition Hashes_camera_shutter_open :: ustringhash where
  "Hashes_camera_shutter_open = ''camera:shutter_open''"
definition Hashes_camera_shutter_close :: ustringhash where
  "Hashes_camera_shutter_close = ''camera:shutter_close''"

subsection \<open>Vectors and matrices (Imath)\<close>

text \<open>
  \<^verbatim>\<open>Matrix44\<close> is Imath's 4x4 matrix; its sixteen-argument constructor takes the
  entries row by row, which is how the code writes its projection matrices.
  \<open>mat_mul\<close> is Imath's \<^verbatim>\<open>operator*\<close> and \<open>multVecMatrix\<close> its routine of that name:
  a point is a row vector \<open>(x, y, z, 1)\<close> multiplied from the left, followed by the
  homogeneous divide.
\<close>

datatype Vec3 = Vec3 real real real

datatype Matrix44 =
  Matrix44 real real real real  real real real real  real real real real  real real real real

definition makeIdentity :: Matrix44 where
  "makeIdentity = Matrix44 1 0 0 0  0 1 0 0  0 0 1 0  0 0 0 1"

fun mat_mul :: "Matrix44 \<Rightarrow> Matrix44 \<Rightarrow> Matrix44" where
  "mat_mul (Matrix44 a00 a01 a02 a03  a10 a11 a12 a13  a20 a21 a22 a23  a30 a31 a32 a33)
           (Matrix44 b00 b01 b02 b03  b10 b11 b12 b13  b20 b21 b22 b23  b30 b31 b32 b33) =
     Matrix44
       (a00 * b00 + a01 * b10 + a02 * b20 + a03 * b30)
       (a00 * b01 + a01 * b11 + a02 * b21 + a03 * b31)
       (a00 * b02 + a01 * b12 + a02 * b22 + a03 * b32)
       (a00 * b03 + a01 * b13 + a02 * b23 + a03 * b33)
       (a10 * b00 + a11 * b10 + a12 * b20 + a13 * b30)
       (a10 * b01 + a11 * b11 + a12 * b21 + a13 * b31)
       (a10 * b02 + a11 * b12 + a12 * b22 + a13 * b32)
       (a10 * b03 + a11 * b13 + a12 * b23 + a13 * b33)
       (a20 * b00 + a21 * b10 + a22 * b20 + a23 * b30)
       (a20 * b01 + a21 * b11 + a22 * b21 + a23 * b31)
       (a20 * b02 + a21 * b12 + a22 * b22 + a23 * b32)
       (a20 * b03 + a21 * b13 + a22 * b23 + a23 * b33)
       (a30 * b00 + a31 * b10 + a32 * b20 + a33 * b30)
       (a30 * b01 + a31 * b11 + a32 * b21 + a33 * b31)
       (a30 * b02 + a31 * b12 + a32 * b22 + a33 * b32)
       (a30 * b03 + a31 * b13 + a32 * b23 + a33 * b33)"

fun multVecMatrix :: "Matrix44 \<Rightarrow> Vec3 \<Rightarrow> Vec3" where
  "multVecMatrix (Matrix44 m00 m01 m02 m03  m10 m11 m12 m13  m20 m21 m22 m23  m30 m31 m32 m33)
                 (Vec3 x y z) =
     (let a = x * m00 + y * m10 + z * m20 + m30;
          b = x * m01 + y * m11 + z * m21 + m31;
          c = x * m02 + y * m12 + z * m22 + m32;
          w = x * m03 + y * m13 + z * m23 + m33
      in Vec3 (a / w) (b / w) (c / w))"

fun Vec3_x :: "Vec3 \<Rightarrow> real" where "Vec3_x (Vec3 x y z) = x"
fun Vec3_y :: "Vec3 \<Rightarrow> real" where "Vec3_y (Vec3 x y z) = y"

subsection \<open>Type descriptors (OpenImageIO)\<close>

text \<open>
  \<^verbatim>\<open>TypeDesc\<close> with the fields its equality compares. \<open>arraylen = 0\<close> is "not an
  array". Comparing a \<^verbatim>\<open>TypeDesc\<close> with a bare \<^verbatim>\<open>BASETYPE\<close>, as the mouse branch
  does, ignores the vector semantics. \<open>INT32\<close> is the base type that
  \<^verbatim>\<open>TypeDesc::INT\<close> is an alias of.
\<close>

datatype BASETYPE = UNKNOWN | INT32 | FLOAT | STRING

datatype AGGREGATE = SCALAR | VEC2 | VEC3 | VEC4 | MATRIX33 | MATRIX44

datatype VECSEMANTICS = NOSEMANTICS | COLOR | POINT | VECTOR | NORMAL

record TypeDesc =
  basetype :: BASETYPE
  aggregate :: AGGREGATE
  vecsemantics :: VECSEMANTICS
  arraylen :: int

definition TypeDesc_of :: "BASETYPE \<Rightarrow> int \<Rightarrow> TypeDesc" where
  "TypeDesc_of b n =
     \<lparr>basetype = b, aggregate = SCALAR, vecsemantics = NOSEMANTICS, arraylen = n\<rparr>"

definition TypeFloat :: TypeDesc where "TypeFloat = TypeDesc_of FLOAT 0"
definition TypeInt :: TypeDesc where "TypeInt = TypeDesc_of INT32 0"
definition TypeString :: TypeDesc where "TypeString = TypeDesc_of STRING 0"
definition TypeFloatArray2 :: TypeDesc where "TypeFloatArray2 = TypeDesc_of FLOAT 2"
definition TypeFloatArray4 :: TypeDesc where "TypeFloatArray4 = TypeDesc_of FLOAT 4"
definition TypeIntArray2 :: TypeDesc where "TypeIntArray2 = TypeDesc_of INT32 2"

definition eq_BASETYPE :: "TypeDesc \<Rightarrow> BASETYPE \<Rightarrow> bool" where
  "eq_BASETYPE t b \<longleftrightarrow> basetype t = b \<and> aggregate t = SCALAR \<and> arraylen t = 0"

fun basesize :: "BASETYPE \<Rightarrow> nat" where
  "basesize UNKNOWN = 0"
| "basesize INT32 = 4"
| "basesize FLOAT = 4"
| "basesize STRING = 8"

fun aggregate_count :: "AGGREGATE \<Rightarrow> nat" where
  "aggregate_count SCALAR = 1"
| "aggregate_count VEC2 = 2"
| "aggregate_count VEC3 = 3"
| "aggregate_count VEC4 = 4"
| "aggregate_count MATRIX33 = 9"
| "aggregate_count MATRIX44 = 16"

definition TypeDesc_size :: "TypeDesc \<Rightarrow> nat" where
  "TypeDesc_size t =
     (if arraylen t > 0 then nat (arraylen t) else 1)
       * (aggregate_count (aggregate t) * basesize (basetype t))"

subsection \<open>The renderer object\<close>

text \<open>
  The fields of \<^verbatim>\<open>ShaderGlobals\<close> that this file reads or writes. The two
  transformation pointers are modelled by the matrix they point to (\<open>None\<close> is the
  null pointer that \<^verbatim>\<open>memset\<close> leaves).
\<close>

record ShaderGlobals =
  N :: Vec3
  Ng :: Vec3
  u :: real
  v :: real
  dudx :: real
  dudy :: real
  dvdx :: real
  dvdy :: real
  dPdx :: Vec3
  dPdy :: Vec3
  dPdz :: Vec3
  dPdu :: Vec3
  dPdv :: Vec3
  shader2common :: "Matrix44 option"
  object2common :: "Matrix44 option"
  surfacearea :: real
  raytype :: int

text \<open>
  A member-function pointer of type \<^verbatim>\<open>AttrGetter\<close> is one of the twelve getters the
  constructor registers.
\<close>

datatype AttrGetter =
  Get_osl_version
| Get_camera_resolution
| Get_camera_projection
| Get_camera_pixelaspect
| Get_camera_screen_window
| Get_camera_fov
| Get_camera_clip
| Get_camera_clip_near
| Get_camera_clip_far
| Get_camera_shutter
| Get_camera_shutter_open
| Get_camera_shutter_close

text \<open>
  The members of \<^verbatim>\<open>OSLToyRenderer\<close>. The arrays \<^verbatim>\<open>m_shutter[2]\<close> and
  \<^verbatim>\<open>m_screen_window[4]\<close> are tuples. \<open>OSL_VERSION\<close> is the value of the macro of
  that name in the build (its header is not at hand); no member function changes it.
\<close>

record renderer =
  m_world_to_camera :: Matrix44
  m_projection :: ustringhash
  m_fov :: real
  m_pixelaspect :: real
  m_hither :: real
  m_yon :: real
  m_shutter :: "real \<times> real"
  m_screen_window :: "real \<times> real \<times> real \<times> real"
  m_xres :: int
  m_yres :: int
  m_mouse_x :: int
  m_mouse_y :: int
  m_named_xforms :: "ustringhash \<rightharpoonup> Matrix44"
  m_attr_getters :: "ustringhash \<rightharpoonup> AttrGetter"
  m_shaderglobals_template :: ShaderGlobals
  OSL_VERSION :: int

subsection \<open>camera\_params\<close>

definition camera_params ::
  "Matrix44 \<Rightarrow> ustringhash \<Rightarrow> real \<Rightarrow> real \<Rightarrow> real \<Rightarrow> int \<Rightarrow> int \<Rightarrow> renderer \<Rightarrow> renderer" where
  "camera_params world_to_camera projection hfov hither yon xres yres this =
     (let pixelaspect = 1;
          frame_aspect = real_of_int xres / real_of_int yres * pixelaspect
      in this\<lparr>m_world_to_camera := world_to_camera,
              m_projection := projection,
              m_fov := hfov,
              m_pixelaspect := pixelaspect,
              m_hither := hither,
              m_yon := yon,
              m_shutter := (0, 1),
              m_screen_window := (- frame_aspect, - 1, frame_aspect, 1),
              m_xres := xres,
              m_yres := yres\<rparr>)"

text \<open>The camera state: the ten members that \<^verbatim>\<open>camera_params\<close> is about.\<close>

definition camera_state ::
  "renderer \<Rightarrow> Matrix44 \<times> ustringhash \<times> real \<times> real \<times> real \<times> real \<times> (real \<times> real)
     \<times> (real \<times> real \<times> real \<times> real) \<times> int \<times> int" where
  "camera_state this =
     (m_world_to_camera this, m_projection this, m_fov this, m_pixelaspect this,
      m_hither this, m_yon this, m_shutter this, m_screen_window this,
      m_xres this, m_yres this)"

subsection \<open>The constructor\<close>

text \<open>
  Modelled from the spec: the default member initialisers of the class declaration
  (osltoyrenderer.h). The object before the constructor body runs has empty
  containers and the mouse at the unset sentinel \<open>-1\<close>; the camera members are
  overwritten by the constructor's \<^verbatim>\<open>camera_params\<close> call whatever they were, and the
  template by its \<^verbatim>\<open>memset\<close>.
\<close>

definition zero_ShaderGlobals :: ShaderGlobals where
  "zero_ShaderGlobals =
     \<lparr>N = Vec3 0 0 0, Ng = Vec3 0 0 0, u = 0, v = 0, dudx = 0, dudy = 0, dvdx = 0, dvdy = 0,
      dPdx = Vec3 0 0 0, dPdy = Vec3 0 0 0, dPdz = Vec3 0 0 0,
      dPdu = Vec3 0 0 0, dPdv = Vec3 0 0 0,
      shader2common = None, object2common = None, surfacearea = 0, raytype = 0\<rparr>"

definition fresh :: "int \<Rightarrow> renderer" where
  "fresh version =
     \<lparr>m_world_to_camera = makeIdentity, m_projection = [], m_fov = 0, m_pixelaspect = 0,
      m_hither = 0, m_yon = 0, m_shutter = (0, 0), m_screen_window = (0, 0, 0, 0),
      m_xres = 0, m_yres = 0, m_mouse_x = - 1, m_mouse_y = - 1,
      m_named_xforms = Map.empty, m_attr_getters = Map.empty,
      m_shaderglobals_template = zero_ShaderGlobals, OSL_VERSION = version\<rparr>"

definition attr_getters_table :: "ustringhash \<rightharpoonup> AttrGetter" where
  "attr_getters_table =
     [Hashes_osl_version \<mapsto> Get_osl_version,
      Hashes_camera_resolution \<mapsto> Get_camera_resolution,
      Hashes_camera_projection \<mapsto> Get_camera_projection,
      Hashes_camera_pixelaspect \<mapsto> Get_camera_pixelaspect,
      Hashes_camera_screen_window \<mapsto> Get_camera_screen_window,
      Hashes_camera_fov \<mapsto> Get_camera_fov,
      Hashes_camera_clip \<mapsto> Get_camera_clip,
      Hashes_camera_clip_near \<mapsto> Get_camera_clip_near,
      Hashes_camera_clip_far \<mapsto> Get_camera_clip_far,
      Hashes_camera_shutter \<mapsto> Get_camera_shutter,
      Hashes_camera_shutter_open \<mapsto> Get_camera_shutter_open,
      Hashes_camera_shutter_close \<mapsto> Get_camera_shutter_close]"

text \<open>
  The default shader globals, from the resolution the object has at that moment.
  \<^verbatim>\<open>dPdz\<close> is assigned twice in the source; the second assignment stands. The two
  transformation pointers are set to the addresses of identity matrices local to the
  constructor; the record holds the matrix pointed to at that moment, and the lifetime
  of those locals is outside the model (no statement below reads the two fields).
\<close>

definition default_shaderglobals :: "renderer \<Rightarrow> ShaderGlobals" where
  "default_shaderglobals this =
     zero_ShaderGlobals
       \<lparr>shader2common := Some makeIdentity,
        object2common := Some makeIdentity,
        raytype := 0,
        surfacearea := 1,
        dudx := 1 / real_of_int (m_xres this),
        dvdy := 1 / real_of_int (m_yres this),
        dPdx := Vec3 1 0 0,
        dPdy := Vec3 0 1 0,
        dPdz := Vec3 0 0 1,
        dPdu := Vec3 (real_of_int (m_xres this)) 0 0,
        dPdv := Vec3 0 (real_of_int (m_yres this)) 0,
        dPdz := Vec3 0 0 0,
        N := Vec3 0 0 1,
        Ng := Vec3 0 0 1\<rparr>"

definition OSLToyRenderer :: "int \<Rightarrow> renderer" where
  "OSLToyRenderer version =
     (let this = camera_params makeIdentity Hashes_perspective 90 0.1 1000 256 256
                   (fresh version);
          this = this\<lparr>m_attr_getters := m_attr_getters this ++ attr_getters_table\<rparr>
      in this\<lparr>m_shaderglobals_template := default_shaderglobals this\<rparr>)"

subsection \<open>Transforms\<close>

definition name_transform :: "string \<Rightarrow> Matrix44 \<Rightarrow> renderer \<Rightarrow> renderer" where
  "name_transform name xform this =
     this\<lparr>m_named_xforms := (m_named_xforms this)(name \<mapsto> xform)\<rparr>"

text \<open>The four overloads of \<^verbatim>\<open>get_matrix\<close>: by handle and by name, with and without time.\<close>

definition get_matrix_xform_time ::
  "renderer \<Rightarrow> Matrix44 \<Rightarrow> Matrix44 \<Rightarrow> real \<Rightarrow> bool \<times> Matrix44" where
  "get_matrix_xform_time this result xform time = (True, xform)"

definition get_matrix_time ::
  "renderer \<Rightarrow> Matrix44 \<Rightarrow> ustringhash \<Rightarrow> real \<Rightarrow> bool \<times> Matrix44" where
  "get_matrix_time this result from time =
     (case m_named_xforms this from of
        Some found \<Rightarrow> (True, found)
      | None \<Rightarrow> (False, result))"

definition get_matrix_xform :: "renderer \<Rightarrow> Matrix44 \<Rightarrow> Matrix44 \<Rightarrow> bool \<times> Matrix44" where
  "get_matrix_xform this result xform = (True, xform)"

definition get_matrix :: "renderer \<Rightarrow> Matrix44 \<Rightarrow> ustringhash \<Rightarrow> bool \<times> Matrix44" where
  "get_matrix this result from =
     (case m_named_xforms this from of
        Some found \<Rightarrow> (True, found)
      | None \<Rightarrow> (False, result))"

text \<open>The matrices that \<^verbatim>\<open>get_inverse_matrix\<close> builds, as the source writes them.\<close>

definition depthrange :: "renderer \<Rightarrow> real" where
  "depthrange this = m_yon this - m_hither this"

definition tanhalffov :: "renderer \<Rightarrow> real" where
  "tanhalffov this = tan (0.5 * m_fov this * pi / 180)"

definition camera_to_screen_perspective :: "renderer \<Rightarrow> Matrix44" where
  "camera_to_screen_perspective this =
     Matrix44 (1 / tanhalffov this) 0 0 0
              0 (1 / tanhalffov this) 0 0
              0 0 (m_yon this / depthrange this) 1
              0 0 (- m_yon this * m_hither this / depthrange this) 0"

definition camera_to_screen_orthographic :: "renderer \<Rightarrow> Matrix44" where
  "camera_to_screen_orthographic this =
     Matrix44 1 0 0 0
              0 1 0 0
              0 0 (1 / depthrange this) 0
              0 0 (- m_hither this / depthrange this) 1"

definition screen_to_ndc :: Matrix44 where
  "screen_to_ndc =
     (let screenleft = - 1; screenwidth = 2; screenbottom = - 1; screenheight = 2
      in Matrix44 (1 / screenwidth) 0 0 0
                  0 (1 / screenheight) 0 0
                  0 0 1 0
                  (- screenleft / screenwidth) (- screenbottom / screenheight) 0 1)"

definition ndc_to_raster :: "renderer \<Rightarrow> Matrix44" where
  "ndc_to_raster this =
     Matrix44 (real_of_int (m_xres this)) 0 0 0
              0 (real_of_int (m_yres this)) 0 0
              0 0 1 0
              0 0 0 1"

text \<open>
  \<^verbatim>\<open>get_inverse_matrix\<close>. \<open>invert\<close> stands for Imath's \<^verbatim>\<open>Matrix44::invert\<close>, a
  routine of a library outside this repository.
\<close>

definition get_inverse_matrix ::
  "(Matrix44 \<Rightarrow> Matrix44) \<Rightarrow> renderer \<Rightarrow> Matrix44 \<Rightarrow> ustringhash \<Rightarrow> real \<Rightarrow> bool \<times> Matrix44" where
  "get_inverse_matrix invert this result to time =
     (if to = Hashes_camera \<or> to = Hashes_screen \<or> to = Hashes_NDC \<or> to = Hashes_raster
      then
        (let M = m_world_to_camera this;
             M = (if to = Hashes_screen \<or> to = Hashes_NDC \<or> to = Hashes_raster
                  then
                    (let M = (if m_projection this = Hashes_perspective
                              then mat_mul M (camera_to_screen_perspective this)
                              else mat_mul M (camera_to_screen_orthographic this))
                     in if to = Hashes_NDC \<or> to = Hashes_raster
                        then
                          (let M = mat_mul M screen_to_ndc
                           in if to = Hashes_raster
                              then mat_mul M (ndc_to_raster this)
                              else M)
                        else M)
                  else M)
         in (True, M))
      else
        (case m_named_xforms this to of
           Some found \<Rightarrow> (True, invert found)
         | None \<Rightarrow> (False, result)))"

text \<open>Setting a renderer up: a sequence of the two calls that write to it.\<close>

datatype setup_call =
  Camera_params Matrix44 ustringhash real real real int int
| Name_transform string Matrix44

fun setup_step :: "renderer \<Rightarrow> setup_call \<Rightarrow> renderer" where
  "setup_step this (Camera_params w p f h y xr yr) = camera_params w p f h y xr yr this"
| "setup_step this (Name_transform name xform) = name_transform name xform this"

definition run_setup :: "renderer \<Rightarrow> setup_call list \<Rightarrow> renderer" where
  "run_setup this calls = foldl setup_step this calls"

fun registered_name :: "setup_call \<Rightarrow> string option" where
  "registered_name (Camera_params w p f h y xr yr) = None"
| "registered_name (Name_transform name xform) = Some name"

definition registered_names :: "setup_call list \<Rightarrow> string list" where
  "registered_names calls = List.map_filter registered_name calls"

subsection \<open>The output buffer\<close>

text \<open>
  \<^verbatim>\<open>void* val\<close> is the memory from that address on, as a function from the index of a
  slot to its contents; a slot holds one element of the base type that the call is
  made for. A write through \<^verbatim>\<open>((float*)val)[i]\<close> updates slot \<open>i\<close>.
  \<^verbatim>\<open>memset(val + off, 0, n)\<close> is only called by the getters of float types, whose slots
  are four bytes wide: it fills the slots that lie in the byte range with the float of
  all-zero bytes, which is \<open>0\<close>.
\<close>

datatype cell = FloatCell real | IntCell int | HashCell ustringhash

type_synonym buffer = "nat \<Rightarrow> cell"

definition memset_zero :: "buffer \<Rightarrow> nat \<Rightarrow> nat \<Rightarrow> buffer" where
  "memset_zero val off n = (\<lambda>i. if off \<le> 4 * i \<and> 4 * i < off + n then FloatCell 0 else val i)"

subsection \<open>The attribute getters\<close>

text \<open>
  Each getter takes the derivatives flag, the requested type and the buffer (the shader
  globals, the object and the name are unnamed, unused parameters in the source).
\<close>

definition get_osl_version :: "renderer \<Rightarrow> bool \<Rightarrow> TypeDesc \<Rightarrow> buffer \<Rightarrow> bool \<times> buffer" where
  "get_osl_version this derivs type val =
     (if type = TypeInt then (True, val(0 := IntCell (OSL_VERSION this)))
      else (False, val))"

definition get_camera_resolution ::
  "renderer \<Rightarrow> bool \<Rightarrow> TypeDesc \<Rightarrow> buffer \<Rightarrow> bool \<times> buffer" where
  "get_camera_resolution this derivs type val =
     (if type = TypeIntArray2
      then (True, val(0 := IntCell (m_xres this), 1 := IntCell (m_yres this)))
      else (False, val))"

definition get_camera_projection ::
  "renderer \<Rightarrow> bool \<Rightarrow> TypeDesc \<Rightarrow> buffer \<Rightarrow> bool \<times> buffer" where
  "get_camera_projection this derivs type val =
     (if type = TypeString then (True, val(0 := HashCell (m_projection this)))
      else (False, val))"

definition get_camera_fov :: "renderer \<Rightarrow> bool \<Rightarrow> TypeDesc \<Rightarrow> buffer \<Rightarrow> bool \<times> buffer" where
  "get_camera_fov this derivs type val =
     (if type = TypeFloat
      then
        (let val = val(0 := FloatCell (m_fov this));
             val = (if derivs then memset_zero val (TypeDesc_size type) (2 * TypeDesc_size type)
                    else val)
         in (True, val))
      else (False, val))"

definition get_camera_pixelaspect ::
  "renderer \<Rightarrow> bool \<Rightarrow> TypeDesc \<Rightarrow> buffer \<Rightarrow> bool \<times> buffer" where
  "get_camera_pixelaspect this derivs type val =
     (if type = TypeFloat
      then
        (let val = val(0 := FloatCell (m_pixelaspect this));
             val = (if derivs then memset_zero val (TypeDesc_size type) (2 * TypeDesc_size type)
                    else val)
         in (True, val))
      else (False, val))"

definition get_camera_clip :: "renderer \<Rightarrow> bool \<Rightarrow> TypeDesc \<Rightarrow> buffer \<Rightarrow> bool \<times> buffer" where
  "get_camera_clip this derivs type val =
     (if type = TypeFloatArray2
      then
        (let val = val(0 := FloatCell (m_hither this), 1 := FloatCell (m_yon this));
             val = (if derivs then memset_zero val (TypeDesc_size type) (2 * TypeDesc_size type)
                    else val)
         in (True, val))
      else (False, val))"

definition get_camera_clip_near ::
  "renderer \<Rightarrow> bool \<Rightarrow> TypeDesc \<Rightarrow> buffer \<Rightarrow> bool \<times> buffer" where
  "get_camera_clip_near this derivs type val =
     (if type = TypeFloat
      then
        (let val = val(0 := FloatCell (m_hither this));
             val = (if derivs then memset_zero val (TypeDesc_size type) (2 * TypeDesc_size type)
                    else val)
         in (True, val))
      else (False, val))"

definition get_camera_clip_far ::
  "renderer \<Rightarrow> bool \<Rightarrow> TypeDesc \<Rightarrow> buffer \<Rightarrow> bool \<times> buffer" where
  "get_camera_clip_far this derivs type val =
     (if type = TypeFloat
      then
        (let val = val(0 := FloatCell (m_yon this));
             val = (if derivs then memset_zero val (TypeDesc_size type) (2 * TypeDesc_size type)
                    else val)
         in (True, val))
      else (False, val))"

definition get_camera_shutter ::
  "renderer \<Rightarrow> bool \<Rightarrow> TypeDesc \<Rightarrow> buffer \<Rightarrow> bool \<times> buffer" where
  "get_camera_shutter this derivs type val =
     (if type = TypeFloatArray2
      then
        (let val = val(0 := FloatCell (fst (m_shutter this)),
                       1 := FloatCell (snd (m_shutter this)));
             val = (if derivs then memset_zero val (TypeDesc_size type) (2 * TypeDesc_size type)
                    else val)
         in (True, val))
      else (False, val))"

definition get_camera_shutter_open ::
  "renderer \<Rightarrow> bool \<Rightarrow> TypeDesc \<Rightarrow> buffer \<Rightarrow> bool \<times> buffer" where
  "get_camera_shutter_open this derivs type val =
     (if type = TypeFloat
      then
        (let val = val(0 := FloatCell (fst (m_shutter this)));
             val = (if derivs then memset_zero val (TypeDesc_size type) (2 * TypeDesc_size type)
                    else val)
         in (True, val))
      else (False, val))"

definition get_camera_shutter_close ::
  "renderer \<Rightarrow> bool \<Rightarrow> TypeDesc \<Rightarrow> buffer \<Rightarrow> bool \<times> buffer" where
  "get_camera_shutter_close this derivs type val =
     (if type = TypeFloat
      then
        (let val = val(0 := FloatCell (snd (m_shutter this)));
             val = (if derivs then memset_zero val (TypeDesc_size type) (2 * TypeDesc_size type)
                    else val)
         in (True, val))
      else (False, val))"

definition get_camera_screen_window ::
  "renderer \<Rightarrow> bool \<Rightarrow> TypeDesc \<Rightarrow> buffer \<Rightarrow> bool \<times> buffer" where
  "get_camera_screen_window this derivs type val =
     (case m_screen_window this of (w0, w1, w2, w3) \<Rightarrow>
        if type = TypeFloatArray4
        then
          (let val = val(0 := FloatCell w0, 1 := FloatCell w1,
                         2 := FloatCell w2, 3 := FloatCell w3);
               val = (if derivs
                      then memset_zero val (TypeDesc_size type) (2 * TypeDesc_size type)
                      else val)
           in (True, val))
        else (False, val))"

text \<open>Calling through a member-function pointer.\<close>

fun call_getter ::
  "AttrGetter \<Rightarrow> renderer \<Rightarrow> bool \<Rightarrow> TypeDesc \<Rightarrow> buffer \<Rightarrow> bool \<times> buffer" where
  "call_getter Get_osl_version = get_osl_version"
| "call_getter Get_camera_resolution = get_camera_resolution"
| "call_getter Get_camera_projection = get_camera_projection"
| "call_getter Get_camera_pixelaspect = get_camera_pixelaspect"
| "call_getter Get_camera_screen_window = get_camera_screen_window"
| "call_getter Get_camera_fov = get_camera_fov"
| "call_getter Get_camera_clip = get_camera_clip"
| "call_getter Get_camera_clip_near = get_camera_clip_near"
| "call_getter Get_camera_clip_far = get_camera_clip_far"
| "call_getter Get_camera_shutter = get_camera_shutter"
| "call_getter Get_camera_shutter_open = get_camera_shutter_open"
| "call_getter Get_camera_shutter_close = get_camera_shutter_close"

subsection \<open>Attribute resolution\<close>

definition get_userdata ::
  "bool \<Rightarrow> ustringhash \<Rightarrow> TypeDesc \<Rightarrow> ShaderGlobals \<Rightarrow> buffer \<Rightarrow> bool \<times> buffer" where
  "get_userdata derivatives name type sg val =
     (if name = Hashes_s \<and> type = TypeFloat
      then
        (let val = val(0 := FloatCell (u sg));
             val = (if derivatives
                    then val(1 := FloatCell (dudx sg), 2 := FloatCell (dudy sg))
                    else val)
         in (True, val))
      else if name = Hashes_t \<and> type = TypeFloat
      then
        (let val = val(0 := FloatCell (v sg));
             val = (if derivatives
                    then val(1 := FloatCell (dvdx sg), 2 := FloatCell (dvdy sg))
                    else val)
         in (True, val))
      else (False, val))"

text \<open>
  \<^verbatim>\<open>get_array_attribute\<close> is a sequence of statements, each of which either returns
  or lets control reach the next one. Its first statement, the lookup in the dispatch
  table, is \<open>dispatch\<close>: \<open>Some r\<close> when the statement returns \<open>r\<close>, \<open>None\<close> when control
  goes on. \<open>after_dispatch\<close> is the rest of the body.
\<close>

definition dispatch ::
  "renderer \<Rightarrow> bool \<Rightarrow> TypeDesc \<Rightarrow> ustringhash \<Rightarrow> buffer \<Rightarrow> (bool \<times> buffer) option" where
  "dispatch this derivatives type name val =
     (case m_attr_getters this name of
        Some getter \<Rightarrow> Some (call_getter getter this derivatives type val)
      | None \<Rightarrow> None)"

definition after_dispatch ::
  "renderer \<Rightarrow> ShaderGlobals \<Rightarrow> bool \<Rightarrow> ustringhash \<Rightarrow> TypeDesc \<Rightarrow> ustringhash \<Rightarrow> int \<Rightarrow> buffer
     \<Rightarrow> bool \<times> buffer" where
  "after_dispatch this sg derivatives object type name index val =
     (if object = Hashes_mouse \<and> name = Hashes_s \<and> eq_BASETYPE type FLOAT \<and> m_mouse_x this \<ge> 0
      then (True, val(0 := FloatCell ((real_of_int (m_mouse_x this) + 0.5)
                                        / real_of_int (m_xres this))))
      else if object = Hashes_mouse \<and> name = Hashes_t \<and> eq_BASETYPE type FLOAT
              \<and> m_mouse_y this \<ge> 0
      then (True, val(0 := FloatCell ((real_of_int (m_mouse_y this) + 0.5)
                                        / real_of_int (m_yres this))))
      else if object = Hashes_options \<and> name = Hashes_blahblah \<and> type = TypeFloat
      then (True, val(0 := FloatCell 3.14159))
      else if object = [] \<and> index = - 1
      then get_userdata derivatives name type sg val
      else (False, val))"

definition get_array_attribute ::
  "renderer \<Rightarrow> ShaderGlobals \<Rightarrow> bool \<Rightarrow> ustringhash \<Rightarrow> TypeDesc \<Rightarrow> ustringhash \<Rightarrow> int \<Rightarrow> buffer
     \<Rightarrow> bool \<times> buffer" where
  "get_array_attribute this sg derivatives object type name index val =
     (case dispatch this derivatives type name val of
        Some r \<Rightarrow> r
      | None \<Rightarrow> after_dispatch this sg derivatives object type name index val)"

definition get_attribute ::
  "renderer \<Rightarrow> ShaderGlobals \<Rightarrow> bool \<Rightarrow> ustringhash \<Rightarrow> TypeDesc \<Rightarrow> ustringhash \<Rightarrow> buffer
     \<Rightarrow> bool \<times> buffer" where
  "get_attribute this sg derivatives object type name val =
     get_array_attribute this sg derivatives object type name (- 1) val"

subsection \<open>The transform chain as the specification words it\<close>

text \<open>
  The specification's description of the built-in spaces: a chain of three stages after
  the stored world-to-camera matrix, cut off at the stage asked for. The projection
  matrices are given by their parameters (the reciprocal of the tangent of half the
  field of view, which is in degrees, and the depth range); the last two stages are
  given by what they do to a point.
\<close>

definition radians :: "real \<Rightarrow> real" where
  "radians deg = deg * pi / 180"

definition spec_perspective :: "real \<Rightarrow> real \<Rightarrow> real \<Rightarrow> real \<Rightarrow> Matrix44" where
  "spec_perspective c d hither yon =
     Matrix44 c 0 0 0  0 c 0 0  0 0 (yon / d) 1  0 0 (- (yon * hither) / d) 0"

definition spec_orthographic :: "real \<Rightarrow> real \<Rightarrow> Matrix44" where
  "spec_orthographic d hither =
     Matrix44 1 0 0 0  0 1 0 0  0 0 (1 / d) 0  0 0 (- hither / d) 1"

definition spec_camera_to_screen :: "renderer \<Rightarrow> Matrix44" where
  "spec_camera_to_screen this =
     (if m_projection this = Hashes_perspective
      then spec_perspective (1 / tan (radians (m_fov this / 2)))
             (m_yon this - m_hither this) (m_hither this) (m_yon this)
      else spec_orthographic (m_yon this - m_hither this) (m_hither this))"

definition spec_chain :: "renderer \<Rightarrow> Matrix44 list" where
  "spec_chain this = [spec_camera_to_screen this, screen_to_ndc, ndc_to_raster this]"

definition spec_resolve :: "renderer \<Rightarrow> nat \<Rightarrow> Matrix44" where
  "spec_resolve this stage =
     foldl mat_mul (m_world_to_camera this) (take stage (spec_chain this))"

fun spec_unit_square :: "Vec3 \<Rightarrow> Vec3" where
  "spec_unit_square (Vec3 x y z) = Vec3 ((x + 1) / 2) ((y + 1) / 2) z"

fun spec_scale :: "real \<Rightarrow> real \<Rightarrow> Vec3 \<Rightarrow> Vec3" where
  "spec_scale sx sy (Vec3 x y z) = Vec3 (sx * x) (sy * y) z"

subsection \<open>The derivative contract as the specification words it\<close>




subsection \<open>Concrete objects for the examples\<close>

text \<open>
  A renderer as the constructor leaves it (the version number of the build plays no
  part in any example), a buffer and a result matrix with recognisable old contents,
  and a matrix to register.
\<close>

definition toy :: renderer where
  "toy = OSLToyRenderer 11300"

definition sevens :: buffer where
  "sevens = (\<lambda>i. IntCell 7)"

definition old_result :: Matrix44 where
  "old_result = Matrix44 7 7 7 7  7 7 7 7  7 7 7 7  7 7 7 7"

definition double_x :: Matrix44 where
  "double_x = Matrix44 2 0 0 0  0 1 0 0  0 0 1 0  0 0 0 1"

definition half_x :: Matrix44 where
  "half_x = Matrix44 (1 / 2) 0 0 0  0 1 0 0  0 0 1 0  0 0 0 1"

text \<open>
  A renderer configured to 512 by 512 on which the pointer is tracked at \<open>x = 300\<close>,
  inside the image, and which is then reconfigured to 256 by 256. (Tracking the pointer
  stores the coordinate in \<^verbatim>\<open>m_mouse_x\<close>; \<^verbatim>\<open>camera_params\<close> leaves it alone.)
\<close>

definition shrunk :: renderer where
  "shrunk =
     camera_params makeIdentity Hashes_perspective 90 0.1 1000 256 256
       ((camera_params makeIdentity Hashes_perspective 90 0.1 1000 512 512 toy)
          \<lparr>m_mouse_x := 300\<rparr>)"

text \<open>An inversion routine that is right on the two matrices above, for the examples.\<close>

definition invert_example :: "Matrix44 \<Rightarrow> Matrix44" where
  "invert_example M = (if M = double_x then half_x else if M = half_x then double_x else M)"

section \<open>Verification\<close>

lemmas Hashes_defs =
  Hashes_camera_def Hashes_screen_def Hashes_NDC_def Hashes_raster_def
  Hashes_perspective_def Hashes_mouse_def Hashes_s_def Hashes_t_def Hashes_options_def
  Hashes_blahblah_def Hashes_osl_version_def Hashes_camera_resolution_def
  Hashes_camera_projection_def Hashes_camera_pixelaspect_def
  Hashes_camera_screen_window_def Hashes_camera_fov_def Hashes_camera_clip_def
  Hashes_camera_clip_near_def Hashes_camera_clip_far_def Hashes_camera_shutter_def
  Hashes_camera_shutter_open_def Hashes_camera_shutter_close_def

lemmas Type_defs =
  TypeFloat_def TypeInt_def TypeString_def TypeFloatArray2_def TypeFloatArray4_def
  TypeIntArray2_def TypeDesc_of_def

lemmas getter_defs =
  get_osl_version_def get_camera_resolution_def get_camera_projection_def
  get_camera_pixelaspect_def get_camera_screen_window_def get_camera_fov_def
  get_camera_clip_def get_camera_clip_near_def get_camera_clip_far_def
  get_camera_shutter_def get_camera_shutter_open_def get_camera_shutter_close_def

lemmas matrix_defs =
  camera_to_screen_perspective_def camera_to_screen_orthographic_def screen_to_ndc_def
  ndc_to_raster_def depthrange_def tanhalffov_def makeIdentity_def

subsection \<open>What the setup calls leave alone\<close>

lemma named_xforms_camera_params:
  "m_named_xforms (camera_params w p f h y xr yr this) = m_named_xforms this"
  by (simp add: camera_params_def Let_def)

lemma named_xforms_setup_step:
  "registered_name c \<noteq> Some name \<Longrightarrow>
   m_named_xforms (setup_step this c) name = m_named_xforms this name"
  by (cases c) (simp_all add: named_xforms_camera_params name_transform_def)

lemma named_xforms_run_setup:
  "name \<notin> set (registered_names calls) \<Longrightarrow>
   m_named_xforms (run_setup this calls) name = m_named_xforms this name"
proof (induction calls arbitrary: this)
  case Nil
  show ?case by (simp add: run_setup_def)
next
  case (Cons c calls)
  from Cons.prems have c: "registered_name c \<noteq> Some name"
    and rest: "name \<notin> set (registered_names calls)"
    by (auto simp: registered_names_def map_filter_simps split: option.splits)
  have "m_named_xforms (run_setup (setup_step this c) calls) name
        = m_named_xforms (setup_step this c) name"
    using Cons.IH [OF rest] .
  with c show ?case
    by (simp add: run_setup_def named_xforms_setup_step)
qed

lemma named_xforms_ctor: "m_named_xforms (OSLToyRenderer version) = Map.empty"
  by (simp add: OSLToyRenderer_def fresh_def camera_params_def Let_def)

lemma template_camera_params:
  "m_shaderglobals_template (camera_params w p f h y xr yr this)
     = m_shaderglobals_template this"
  by (simp add: camera_params_def Let_def)

lemma template_setup_step:
  "m_shaderglobals_template (setup_step this c) = m_shaderglobals_template this"
  by (cases c) (simp_all add: template_camera_params name_transform_def)

lemma template_run_setup:
  "m_shaderglobals_template (run_setup this calls) = m_shaderglobals_template this"
  by (induction calls arbitrary: this) (simp_all add: run_setup_def template_setup_step)

lemma template_ctor:
  "m_shaderglobals_template (OSLToyRenderer version)
     = default_shaderglobals
         (camera_params makeIdentity Hashes_perspective 90 0.1 1000 256 256 (fresh version))"
  by (simp add: OSLToyRenderer_def Let_def default_shaderglobals_def camera_params_def)

lemma getters_camera_params:
  "m_attr_getters (camera_params w p f h y xr yr this) = m_attr_getters this"
  by (simp add: camera_params_def Let_def)

lemma getters_setup_step: "m_attr_getters (setup_step this c) = m_attr_getters this"
  by (cases c) (simp_all add: getters_camera_params name_transform_def)

lemma getters_run_setup: "m_attr_getters (run_setup this calls) = m_attr_getters this"
  by (induction calls arbitrary: this) (simp_all add: run_setup_def getters_setup_step)

lemma getters_ctor: "m_attr_getters (OSLToyRenderer version) = attr_getters_table"
  by (simp add: OSLToyRenderer_def fresh_def camera_params_def Let_def)

lemma res_ctor: "m_xres (OSLToyRenderer version) = 256" "m_yres (OSLToyRenderer version) = 256"
  by (simp_all add: OSLToyRenderer_def camera_params_def Let_def)

lemma mouse_ctor:
  "m_mouse_x (OSLToyRenderer version) = - 1" "m_mouse_y (OSLToyRenderer version) = - 1"
  by (simp_all add: OSLToyRenderer_def fresh_def camera_params_def Let_def)

subsection \<open>The dispatch table\<close>

lemma table_s: "attr_getters_table Hashes_s = None"
  by (simp add: attr_getters_table_def Hashes_defs)

lemma table_t: "attr_getters_table Hashes_t = None"
  by (simp add: attr_getters_table_def Hashes_defs)

lemma table_fov: "attr_getters_table Hashes_camera_fov = Some Get_camera_fov"
  by (simp add: attr_getters_table_def Hashes_defs)


lemma dom_table:
  "dom attr_getters_table =
     {Hashes_osl_version, Hashes_camera_resolution, Hashes_camera_projection,
      Hashes_camera_pixelaspect, Hashes_camera_screen_window, Hashes_camera_fov,
      Hashes_camera_clip, Hashes_camera_clip_near, Hashes_camera_clip_far,
      Hashes_camera_shutter, Hashes_camera_shutter_open, Hashes_camera_shutter_close}"
  by (auto simp: attr_getters_table_def split: if_splits)

text \<open>
  No later statement of \<^verbatim>\<open>get_array_attribute\<close> answers a name of the constructor's
  table: whether a declining entry returned or let control go on, the caller would see
  \<^verbatim>\<open>false\<close> and an untouched buffer.
\<close>

lemma table_names_after_dispatch:
  "name \<in> dom attr_getters_table \<Longrightarrow>
   after_dispatch this sg derivatives object type name index val = (False, val)"
  unfolding dom_table
  by (auto simp: after_dispatch_def get_userdata_def Hashes_defs)

subsection \<open>A call that declines has not written\<close>

lemma getter_declines:
  "\<not> fst (call_getter g this derivs type val) \<Longrightarrow>
   call_getter g this derivs type val = (False, val)"
  by (cases g) (simp_all add: getter_defs Let_def split: if_splits prod.splits)

lemma userdata_declines:
  "\<not> fst (get_userdata derivatives name type sg val) \<Longrightarrow>
   get_userdata derivatives name type sg val = (False, val)"
  by (simp add: get_userdata_def Let_def split: if_splits)

lemma after_dispatch_declines:
  "\<not> fst (after_dispatch this sg derivatives object type name index val) \<Longrightarrow>
   after_dispatch this sg derivatives object type name index val = (False, val)"
  by (auto simp: after_dispatch_def dest: userdata_declines split: if_splits)

lemma array_attribute_declines:
  assumes "\<not> fst (get_array_attribute this sg derivatives object type name index val)"
  shows "get_array_attribute this sg derivatives object type name index val = (False, val)"
proof (cases "m_attr_getters this name")
  case None
  with assms show ?thesis
    using after_dispatch_declines [of this sg derivatives object type name index val]
    by (simp add: get_array_attribute_def dispatch_def)
next
  case (Some getter)
  with assms show ?thesis
    using getter_declines [of getter this derivatives type val]
    by (simp add: get_array_attribute_def dispatch_def)
qed

subsection \<open>The blocks that a float getter writes\<close>







lemma spec_camera_to_screen_eq:
  "spec_camera_to_screen this =
     (if m_projection this = Hashes_perspective
      then camera_to_screen_perspective this
      else camera_to_screen_orthographic this)"
  by (simp add: spec_camera_to_screen_def spec_perspective_def spec_orthographic_def
      matrix_defs radians_def)

lemma normalised_pointer:
  fixes a b :: int
  assumes "0 \<le> a" and "a < b"
  shows "0 \<le> (real_of_int a + 0.5) / real_of_int b \<and> (real_of_int a + 0.5) / real_of_int b \<le> 1"
proof -
  from assms have "real_of_int a + 1 \<le> real_of_int b" by linarith
  with assms show ?thesis by (simp add: divide_simps)
qed

lemma pointer_beyond_image:
  fixes a b :: int
  assumes "0 < b" and "b \<le> a"
  shows "1 < (real_of_int a + 0.5) / real_of_int b"
proof -
  from assms have "real_of_int b < real_of_int a + 0.5" by simp
  with assms show ?thesis by (simp add: divide_simps)
qed

section \<open>The claims\<close>

subsection \<open>C1: the raster matrix of the default camera\<close>

text \<open>
  C1, as the code has it. After \<^verbatim>\<open>camera_params\<close> with the identity world-to-camera
  matrix, perspective projection, a field of view of 90 degrees, hither 0.1, yon 1000 and
  a resolution of 256 by 256, it is \<^verbatim>\<open>get_inverse_matrix\<close> that resolves the built-in
  name "raster": it returns true, and the matrix it returns maps the camera-space point
  on the view axis at unit distance (on either side of the eye) to the pixel
  coordinates (128, 128), exactly in real arithmetic and so within half a pixel.
\<close>

theorem raster_maps_view_axis_to_centre:
  "(case get_inverse_matrix invert
           (camera_params makeIdentity Hashes_perspective 90 0.1 1000 256 256 this)
           result Hashes_raster time of
      (ok, M) \<Rightarrow>
        ok
        \<and> Vec3_x (multVecMatrix M (Vec3 0 0 1)) = 128
        \<and> Vec3_y (multVecMatrix M (Vec3 0 0 1)) = 128
        \<and> Vec3_x (multVecMatrix M (Vec3 0 0 (- 1))) = 128
        \<and> Vec3_y (multVecMatrix M (Vec3 0 0 (- 1))) = 128
        \<and> \<bar>Vec3_x (multVecMatrix M (Vec3 0 0 1)) - 128\<bar> \<le> 1 / 2
        \<and> \<bar>Vec3_y (multVecMatrix M (Vec3 0 0 1)) - 128\<bar> \<le> 1 / 2)"
  by (simp add: get_inverse_matrix_def camera_params_def Hashes_defs Let_def matrix_defs)

text \<open>
  C1, an instance: the renderer as constructed and configured once more, with an
  inversion routine and a result matrix of the examples.
\<close>

theorem raster_maps_view_axis_to_centre_witness:
  "(case get_inverse_matrix invert_example
           (camera_params makeIdentity Hashes_perspective 90 0.1 1000 256 256 toy)
           old_result Hashes_raster 0 of
      (ok, M) \<Rightarrow>
        ok
        \<and> Vec3_x (multVecMatrix M (Vec3 0 0 1)) = 128
        \<and> Vec3_y (multVecMatrix M (Vec3 0 0 1)) = 128
        \<and> Vec3_x (multVecMatrix M (Vec3 0 0 (- 1))) = 128
        \<and> Vec3_y (multVecMatrix M (Vec3 0 0 (- 1))) = 128
        \<and> \<bar>Vec3_x (multVecMatrix M (Vec3 0 0 1)) - 128\<bar> \<le> 1 / 2
        \<and> \<bar>Vec3_y (multVecMatrix M (Vec3 0 0 1)) - 128\<bar> \<le> 1 / 2)"
  using raster_maps_view_axis_to_centre
    [where invert = invert_example and this = toy and result = old_result and time = 0] .

text \<open>
  C1 as stated fails: on the renderer as constructed and configured with those
  parameters, the forward \<^verbatim>\<open>get_matrix\<close> by name returns false for "raster" and
  leaves the result matrix as it was.
\<close>

theorem forward_raster_fails:
  "get_matrix (camera_params makeIdentity Hashes_perspective 90 0.1 1000 256 256 toy)
     old_result Hashes_raster = (False, old_result)"
  by (simp add: get_matrix_def named_xforms_camera_params toy_def named_xforms_ctor)

subsection \<open>C2: the chain of the built-in spaces\<close>

text \<open>
  C2. For each of the built-in names "camera", "screen", "NDC" and "raster",
  \<^verbatim>\<open>get_inverse_matrix\<close> returns true and the matrix is the specification's chain cut
  off at that stage: the world-to-camera matrix alone for "camera"; composed with the
  camera-to-screen matrix that the projection tag selects for "screen"; composed
  further with the remap of the screen window to the unit square for "NDC"; and scaled
  further by the resolution for "raster". The last two matrices do to a point what the
  specification says: the remap sends \<open>(x, y)\<close> to \<open>((x + 1) / 2, (y + 1) / 2)\<close>, the
  scale multiplies \<open>x\<close> by \<open>xres\<close> and \<open>y\<close> by \<open>yres\<close>.
\<close>

theorem builtin_spaces_chain:
  "get_inverse_matrix invert this result Hashes_camera time = (True, spec_resolve this 0)
   \<and> get_inverse_matrix invert this result Hashes_screen time = (True, spec_resolve this 1)
   \<and> get_inverse_matrix invert this result Hashes_NDC time = (True, spec_resolve this 2)
   \<and> get_inverse_matrix invert this result Hashes_raster time = (True, spec_resolve this 3)
   \<and> spec_resolve this 0 = m_world_to_camera this
   \<and> multVecMatrix screen_to_ndc p = spec_unit_square p
   \<and> multVecMatrix (ndc_to_raster this) p
       = spec_scale (real_of_int (m_xres this)) (real_of_int (m_yres this)) p"
proof -
  have chain:
    "get_inverse_matrix invert this result Hashes_camera time = (True, spec_resolve this 0)
     \<and> get_inverse_matrix invert this result Hashes_screen time = (True, spec_resolve this 1)
     \<and> get_inverse_matrix invert this result Hashes_NDC time = (True, spec_resolve this 2)
     \<and> get_inverse_matrix invert this result Hashes_raster time = (True, spec_resolve this 3)"
    by (simp add: get_inverse_matrix_def spec_resolve_def spec_chain_def
        spec_camera_to_screen_eq Hashes_defs Let_def)
  have first: "spec_resolve this 0 = m_world_to_camera this"
    by (simp add: spec_resolve_def)
  have points: "multVecMatrix screen_to_ndc p = spec_unit_square p
     \<and> multVecMatrix (ndc_to_raster this) p
         = spec_scale (real_of_int (m_xres this)) (real_of_int (m_yres this)) p"
    by (cases p) (simp add: screen_to_ndc_def ndc_to_raster_def add_divide_distrib)
  from chain first points show ?thesis by simp
qed

text \<open>
  C2, an instance: the four built-in names on the renderer as constructed, and the
  corner \<open>(-1, -1)\<close> of the screen window.
\<close>

theorem builtin_spaces_chain_witness:
  "get_inverse_matrix invert_example toy old_result Hashes_camera 0 = (True, spec_resolve toy 0)
   \<and> get_inverse_matrix invert_example toy old_result Hashes_screen 0
       = (True, spec_resolve toy 1)
   \<and> get_inverse_matrix invert_example toy old_result Hashes_NDC 0 = (True, spec_resolve toy 2)
   \<and> get_inverse_matrix invert_example toy old_result Hashes_raster 0
       = (True, spec_resolve toy 3)
   \<and> spec_resolve toy 0 = m_world_to_camera toy
   \<and> multVecMatrix screen_to_ndc (Vec3 (- 1) (- 1) 0) = Vec3 0 0 0
   \<and> multVecMatrix (ndc_to_raster toy) (Vec3 (- 1) (- 1) 0) = Vec3 (- 256) (- 256) 0"
  using builtin_spaces_chain
    [where invert = invert_example and this = toy and result = old_result and time = 0
       and p = "Vec3 (- 1) (- 1) 0"]
  by (simp add: toy_def res_ctor)

subsection \<open>C3: named transforms\<close>

text \<open>
  C3. After \<^verbatim>\<open>name_transform\<close> of a name with a matrix \<open>M\<close>, the forward
  \<^verbatim>\<open>get_matrix\<close> by that name (with or without time) returns true and exactly \<open>M\<close>,
  also after further setup calls that do not register the name again;
  \<^verbatim>\<open>get_inverse_matrix\<close> for the name, when it is not a built-in space, returns true
  and the inverse of \<open>M\<close> as the library's inversion routine computes it; and
  registering the name again with \<open>Mnew\<close> leaves the renderer as if \<open>M\<close> had never been
  registered, so that both resolutions see \<open>Mnew\<close> only.
\<close>

theorem name_transform_resolves:
  "get_matrix (name_transform name M this) result name = (True, M)
   \<and> get_matrix_time (name_transform name M this) result name time = (True, M)
   \<and> (name \<notin> set (registered_names calls) \<longrightarrow>
        get_matrix (run_setup (name_transform name M this) calls) result name = (True, M))
   \<and> (name \<notin> {Hashes_camera, Hashes_screen, Hashes_NDC, Hashes_raster} \<longrightarrow>
        get_inverse_matrix invert (name_transform name M this) result name time
          = (True, invert M))
   \<and> name_transform name Mnew (name_transform name M this) = name_transform name Mnew this
   \<and> get_matrix (name_transform name Mnew (name_transform name M this)) result name
        = (True, Mnew)
   \<and> (name \<notin> {Hashes_camera, Hashes_screen, Hashes_NDC, Hashes_raster} \<longrightarrow>
        get_inverse_matrix invert (name_transform name Mnew (name_transform name M this))
          result name time = (True, invert Mnew))"
  by (simp add: get_matrix_def get_matrix_time_def get_inverse_matrix_def
      named_xforms_run_setup name_transform_def)

text \<open>
  C3, an instance: "myspace" registered with a matrix that doubles \<open>x\<close>, resolved
  forwards after a later \<^verbatim>\<open>camera_params\<close> call, resolved inversely to the matrix that
  halves \<open>x\<close>, and registered again.
\<close>

theorem name_transform_resolves_witness:
  "''myspace'' \<notin> set (registered_names
       [Camera_params makeIdentity Hashes_perspective 45 1 100 512 512])
   \<and> ''myspace'' \<notin> {Hashes_camera, Hashes_screen, Hashes_NDC, Hashes_raster}
   \<and> get_matrix (name_transform ''myspace'' double_x toy) old_result ''myspace''
        = (True, double_x)
   \<and> get_matrix
        (run_setup (name_transform ''myspace'' double_x toy)
           [Camera_params makeIdentity Hashes_perspective 45 1 100 512 512])
        old_result ''myspace'' = (True, double_x)
   \<and> get_inverse_matrix invert_example (name_transform ''myspace'' double_x toy)
        old_result ''myspace'' 0 = (True, half_x)
   \<and> mat_mul double_x half_x = makeIdentity
   \<and> get_matrix (name_transform ''myspace'' half_x (name_transform ''myspace'' double_x toy))
        old_result ''myspace'' = (True, half_x)
   \<and> get_inverse_matrix invert_example
        (name_transform ''myspace'' half_x (name_transform ''myspace'' double_x toy))
        old_result ''myspace'' 0 = (True, double_x)"
proof -
  have fresh_name:
    "''myspace'' \<notin> set (registered_names
        [Camera_params makeIdentity Hashes_perspective 45 1 100 512 512])"
    and not_builtin: "''myspace'' \<notin> {Hashes_camera, Hashes_screen, Hashes_NDC, Hashes_raster}"
    by (simp_all add: registered_names_def Hashes_defs)
  have inverses: "invert_example double_x = half_x" "invert_example half_x = double_x"
    "mat_mul double_x half_x = makeIdentity"
    by (simp_all add: invert_example_def double_x_def half_x_def makeIdentity_def)
  note inst =
    name_transform_resolves
      [where name = "''myspace''" and M = double_x and Mnew = half_x and this = toy
         and result = old_result and time = 0 and invert = invert_example
         and calls = "[Camera_params makeIdentity Hashes_perspective 45 1 100 512 512]"]
  from inst fresh_name not_builtin show ?thesis
    unfolding inverses by blast
qed

subsection \<open>C4: the shader globals template\<close>

text \<open>
  C4, as the code has it. The template is built once, by the constructor, from the
  resolution of the constructor's own \<^verbatim>\<open>camera_params\<close> call, 256 by 256:
  \<open>dudx = 1/256\<close>, \<open>dvdy = 1/256\<close>, \<open>dPdu = (256, 0, 0)\<close> and \<open>dPdv = (0, 256, 0)\<close>.
  A \<^verbatim>\<open>camera_params\<close> call does not touch the template, so these values stand after
  any sequence of setup calls, whatever resolution they configure.
\<close>

theorem template_built_once:
  "m_shaderglobals_template (camera_params w p f h y xres yres this)
     = m_shaderglobals_template this
   \<and> dudx (m_shaderglobals_template (run_setup (OSLToyRenderer version) calls)) = 1 / 256
   \<and> dvdy (m_shaderglobals_template (run_setup (OSLToyRenderer version) calls)) = 1 / 256
   \<and> dPdu (m_shaderglobals_template (run_setup (OSLToyRenderer version) calls))
       = Vec3 256 0 0
   \<and> dPdv (m_shaderglobals_template (run_setup (OSLToyRenderer version) calls))
       = Vec3 0 256 0"
  by (simp add: template_camera_params template_run_setup template_ctor
      default_shaderglobals_def camera_params_def Let_def)

text \<open>
  C4, an instance: the constructed renderer, reconfigured to 512 by 512 and then to
  640 by 480.
\<close>

theorem template_built_once_witness:
  "m_shaderglobals_template (camera_params makeIdentity Hashes_perspective 90 0.1 1000 512 512 toy)
     = m_shaderglobals_template toy
   \<and> dudx (m_shaderglobals_template
        (run_setup (OSLToyRenderer 11300)
           [Camera_params makeIdentity Hashes_perspective 90 0.1 1000 512 512,
            Camera_params makeIdentity Hashes_perspective 90 0.1 1000 640 480])) = 1 / 256
   \<and> dPdv (m_shaderglobals_template
        (run_setup (OSLToyRenderer 11300)
           [Camera_params makeIdentity Hashes_perspective 90 0.1 1000 512 512,
            Camera_params makeIdentity Hashes_perspective 90 0.1 1000 640 480]))
       = Vec3 0 256 0"
  using template_built_once
    [where w = makeIdentity and p = Hashes_perspective and f = 90 and h = "0.1" and y = 1000
       and xres = 512 and yres = 512 and this = toy and version = 11300
       and calls = "[Camera_params makeIdentity Hashes_perspective 90 0.1 1000 512 512,
                     Camera_params makeIdentity Hashes_perspective 90 0.1 1000 640 480]"]
  by blast

text \<open>
  C4 as stated fails: after \<^verbatim>\<open>camera_params\<close> with a resolution of 512 by 512 on the
  constructed renderer, the template's \<open>dudx\<close> is not \<open>1/512\<close> and its \<open>dPdu\<close> is not
  \<open>(512, 0, 0)\<close>.
\<close>

theorem template_not_rebuilt:
  "dudx (m_shaderglobals_template
      (camera_params makeIdentity Hashes_perspective 90 0.1 1000 512 512 toy)) \<noteq> 1 / 512
   \<and> dPdu (m_shaderglobals_template
      (camera_params makeIdentity Hashes_perspective 90 0.1 1000 512 512 toy)) \<noteq> Vec3 512 0 0"
  by (simp add: template_camera_params toy_def template_ctor
      default_shaderglobals_def camera_params_def Let_def)

subsection \<open>C5: a dispatch-table entry that declines\<close>

text \<open>
  C5, as the code has it. When the name matches a dispatch-table entry,
  \<^verbatim>\<open>get_array_attribute\<close> returns at the dispatch statement with whatever the entry
  returns: the entry's result is the result of the whole call, also when the entry
  declines because the requested type does not match, and no later step (mouse scope,
  the reserved constant, userdata) is consulted.
\<close>

theorem dispatch_returns_entry_result:
  "m_attr_getters this name = Some getter \<longrightarrow>
     dispatch this derivatives type name val
       = Some (call_getter getter this derivatives type val)
     \<and> get_array_attribute this sg derivatives object type name index val
       = call_getter getter this derivatives type val"
  by (simp add: get_array_attribute_def dispatch_def)

text \<open>
  C5, an instance: "camera:fov" asked for as a float on the constructed renderer, where
  the entry accepts.
\<close>

theorem dispatch_returns_entry_result_witness:
  "m_attr_getters toy Hashes_camera_fov = Some Get_camera_fov
   \<and> dispatch toy False TypeFloat Hashes_camera_fov sevens
       = Some (call_getter Get_camera_fov toy False TypeFloat sevens)
   \<and> get_array_attribute toy zero_ShaderGlobals False [] TypeFloat Hashes_camera_fov (- 1) sevens
       = call_getter Get_camera_fov toy False TypeFloat sevens"
  using dispatch_returns_entry_result
    [where this = toy and name = Hashes_camera_fov and getter = Get_camera_fov
       and derivatives = False and type = TypeFloat and val = sevens
       and sg = zero_ShaderGlobals and object = "[]" and index = "- 1"]
  by (simp add: toy_def getters_ctor table_fov)

text \<open>
  C5 as stated fails: "camera:fov" asked for as an int on the constructed renderer
  matches the entry, the entry declines, and the dispatch statement returns (control
  does not go on to the later steps); the whole call returns the entry's failure.
\<close>

theorem declined_entry_returns:
  "m_attr_getters toy Hashes_camera_fov = Some Get_camera_fov
   \<and> \<not> fst (call_getter Get_camera_fov toy False TypeInt sevens)
   \<and> dispatch toy False TypeInt Hashes_camera_fov sevens \<noteq> None
   \<and> dispatch toy False TypeInt Hashes_camera_fov sevens
       = Some (call_getter Get_camera_fov toy False TypeInt sevens)
   \<and> get_array_attribute toy zero_ShaderGlobals False [] TypeInt Hashes_camera_fov (- 1) sevens
       = (False, sevens)"
  by (simp add: toy_def getters_ctor table_fov dispatch_def get_array_attribute_def
      get_camera_fov_def Type_defs)

subsection \<open>C6: derivative blocks of the camera getters\<close>




subsection \<open>C7: camera\_params replaces the camera state\<close>

text \<open>
  C7. Every \<^verbatim>\<open>camera_params\<close> call replaces all camera state: the members take the
  values of the arguments, the pixel aspect is 1 and the shutter is \<open>[0, 1]\<close> whatever
  the arguments and the earlier state were, the camera state after the call does not
  depend on the state before it, and (the vertical resolution not being zero) the
  screen window is \<open>[-aspect, -1, aspect, 1]\<close> with \<open>aspect = xres / yres * pixelaspect\<close>.
\<close>

theorem camera_params_replaces_camera_state:
  "m_world_to_camera (camera_params w p f h y xres yres this) = w
   \<and> m_projection (camera_params w p f h y xres yres this) = p
   \<and> m_fov (camera_params w p f h y xres yres this) = f
   \<and> m_hither (camera_params w p f h y xres yres this) = h
   \<and> m_yon (camera_params w p f h y xres yres this) = y
   \<and> m_xres (camera_params w p f h y xres yres this) = xres
   \<and> m_yres (camera_params w p f h y xres yres this) = yres
   \<and> m_pixelaspect (camera_params w p f h y xres yres this) = 1
   \<and> m_shutter (camera_params w p f h y xres yres this) = (0, 1)
   \<and> camera_state (camera_params w p f h y xres yres this)
       = camera_state (camera_params w p f h y xres yres other)
   \<and> (yres \<noteq> 0 \<longrightarrow>
        m_screen_window (camera_params w p f h y xres yres this)
          = (- (real_of_int xres / real_of_int yres
                  * m_pixelaspect (camera_params w p f h y xres yres this)),
             - 1,
             real_of_int xres / real_of_int yres
               * m_pixelaspect (camera_params w p f h y xres yres this),
             1))"
  by (simp add: camera_params_def camera_state_def Let_def)

text \<open>
  C7, an instance: a second call, with a resolution of 512 by 256, on the constructed
  renderer and on that renderer after a call with 640 by 480: the window is
  \<open>[-2, -1, 2, 1]\<close> and the camera state is the same in both.
\<close>

theorem camera_params_replaces_camera_state_witness:
  "(256 :: int) \<noteq> 0
   \<and> m_screen_window (camera_params makeIdentity Hashes_perspective 45 1 100 512 256 toy)
       = (- 2, - 1, 2, 1)
   \<and> m_shutter (camera_params makeIdentity Hashes_perspective 45 1 100 512 256 toy) = (0, 1)
   \<and> m_pixelaspect (camera_params makeIdentity Hashes_perspective 45 1 100 512 256 toy) = 1
   \<and> camera_state (camera_params makeIdentity Hashes_perspective 45 1 100 512 256 toy)
       = camera_state (camera_params makeIdentity Hashes_perspective 45 1 100 512 256
           (camera_params double_x [] 30 2 50 640 480 toy))"
  using camera_params_replaces_camera_state
    [where w = makeIdentity and p = Hashes_perspective and f = 45 and h = 1 and y = 100
       and xres = 512 and yres = 256 and this = toy
       and other = "camera_params double_x [] 30 2 50 640 480 toy"]
  by simp

subsection \<open>C8: the mouse attributes\<close>

text \<open>
  C8, as the code has it. On a renderer whose dispatch table is the constructor's,
  \<^verbatim>\<open>get_attribute\<close> with scope "mouse", name "s" and type float succeeds exactly when
  the tracked mouse x-coordinate is not negative; with the unset sentinel \<open>-1\<close> it
  returns failure and writes nothing. On success the value is \<open>(x + 0.5) / xres\<close> (the
  resolution not being zero). The code guards the coordinate from below only: the
  value lies in \<open>[0, 1]\<close> when the coordinate is also below \<open>xres\<close>, and it is greater
  than 1 when the coordinate is \<open>xres\<close> or more. The same for name "t" with the
  y-coordinate and \<open>yres\<close>.
\<close>

theorem mouse_attributes:
  "m_attr_getters this = attr_getters_table \<longrightarrow>
     (fst (get_attribute this sg derivatives Hashes_mouse TypeFloat Hashes_s val)
        \<longleftrightarrow> 0 \<le> m_mouse_x this)
     \<and> (m_mouse_x this = - 1 \<longrightarrow>
          get_attribute this sg derivatives Hashes_mouse TypeFloat Hashes_s val = (False, val))
     \<and> (0 \<le> m_mouse_x this \<and> m_xres this \<noteq> 0 \<longrightarrow>
          get_attribute this sg derivatives Hashes_mouse TypeFloat Hashes_s val
            = (True, val(0 := FloatCell ((real_of_int (m_mouse_x this) + 0.5)
                                          / real_of_int (m_xres this)))))
     \<and> (0 \<le> m_mouse_x this \<and> m_mouse_x this < m_xres this \<longrightarrow>
          0 \<le> (real_of_int (m_mouse_x this) + 0.5) / real_of_int (m_xres this)
          \<and> (real_of_int (m_mouse_x this) + 0.5) / real_of_int (m_xres this) \<le> 1)
     \<and> (0 < m_xres this \<and> m_xres this \<le> m_mouse_x this \<longrightarrow>
          1 < (real_of_int (m_mouse_x this) + 0.5) / real_of_int (m_xres this))
     \<and> (fst (get_attribute this sg derivatives Hashes_mouse TypeFloat Hashes_t val)
        \<longleftrightarrow> 0 \<le> m_mouse_y this)
     \<and> (m_mouse_y this = - 1 \<longrightarrow>
          get_attribute this sg derivatives Hashes_mouse TypeFloat Hashes_t val = (False, val))
     \<and> (0 \<le> m_mouse_y this \<and> m_yres this \<noteq> 0 \<longrightarrow>
          get_attribute this sg derivatives Hashes_mouse TypeFloat Hashes_t val
            = (True, val(0 := FloatCell ((real_of_int (m_mouse_y this) + 0.5)
                                          / real_of_int (m_yres this)))))
     \<and> (0 \<le> m_mouse_y this \<and> m_mouse_y this < m_yres this \<longrightarrow>
          0 \<le> (real_of_int (m_mouse_y this) + 0.5) / real_of_int (m_yres this)
          \<and> (real_of_int (m_mouse_y this) + 0.5) / real_of_int (m_yres this) \<le> 1)
     \<and> (0 < m_yres this \<and> m_yres this \<le> m_mouse_y this \<longrightarrow>
          1 < (real_of_int (m_mouse_y this) + 0.5) / real_of_int (m_yres this))"
proof
  assume tab: "m_attr_getters this = attr_getters_table"
  have ds: "dispatch this derivatives TypeFloat Hashes_s val = None"
    and dt: "dispatch this derivatives TypeFloat Hashes_t val = None"
    by (simp_all add: dispatch_def tab table_s table_t)
  have as: "get_attribute this sg derivatives Hashes_mouse TypeFloat Hashes_s val
       = after_dispatch this sg derivatives Hashes_mouse TypeFloat Hashes_s (- 1) val"
    and at: "get_attribute this sg derivatives Hashes_mouse TypeFloat Hashes_t val
       = after_dispatch this sg derivatives Hashes_mouse TypeFloat Hashes_t (- 1) val"
    by (simp_all add: get_attribute_def get_array_attribute_def ds dt)
  have s: "get_attribute this sg derivatives Hashes_mouse TypeFloat Hashes_s val
       = (if 0 \<le> m_mouse_x this
          then (True, val(0 := FloatCell ((real_of_int (m_mouse_x this) + 0.5)
                                          / real_of_int (m_xres this))))
          else (False, val))"
    unfolding as
    by (simp add: after_dispatch_def eq_BASETYPE_def Type_defs Hashes_defs)
  have t: "get_attribute this sg derivatives Hashes_mouse TypeFloat Hashes_t val
       = (if 0 \<le> m_mouse_y this
          then (True, val(0 := FloatCell ((real_of_int (m_mouse_y this) + 0.5)
                                          / real_of_int (m_yres this))))
          else (False, val))"
    unfolding at
    by (simp add: after_dispatch_def eq_BASETYPE_def Type_defs Hashes_defs)
  show "(fst (get_attribute this sg derivatives Hashes_mouse TypeFloat Hashes_s val)
        \<longleftrightarrow> 0 \<le> m_mouse_x this)
     \<and> (m_mouse_x this = - 1 \<longrightarrow>
          get_attribute this sg derivatives Hashes_mouse TypeFloat Hashes_s val = (False, val))
     \<and> (0 \<le> m_mouse_x this \<and> m_xres this \<noteq> 0 \<longrightarrow>
          get_attribute this sg derivatives Hashes_mouse TypeFloat Hashes_s val
            = (True, val(0 := FloatCell ((real_of_int (m_mouse_x this) + 0.5)
                                          / real_of_int (m_xres this)))))
     \<and> (0 \<le> m_mouse_x this \<and> m_mouse_x this < m_xres this \<longrightarrow>
          0 \<le> (real_of_int (m_mouse_x this) + 0.5) / real_of_int (m_xres this)
          \<and> (real_of_int (m_mouse_x this) + 0.5) / real_of_int (m_xres this) \<le> 1)
     \<and> (0 < m_xres this \<and> m_xres this \<le> m_mouse_x this \<longrightarrow>
          1 < (real_of_int (m_mouse_x this) + 0.5) / real_of_int (m_xres this))
     \<and> (fst (get_attribute this sg derivatives Hashes_mouse TypeFloat Hashes_t val)
        \<longleftrightarrow> 0 \<le> m_mouse_y this)
     \<and> (m_mouse_y this = - 1 \<longrightarrow>
          get_attribute this sg derivatives Hashes_mouse TypeFloat Hashes_t val = (False, val))
     \<and> (0 \<le> m_mouse_y this \<and> m_yres this \<noteq> 0 \<longrightarrow>
          get_attribute this sg derivatives Hashes_mouse TypeFloat Hashes_t val
            = (True, val(0 := FloatCell ((real_of_int (m_mouse_y this) + 0.5)
                                          / real_of_int (m_yres this)))))
     \<and> (0 \<le> m_mouse_y this \<and> m_mouse_y this < m_yres this \<longrightarrow>
          0 \<le> (real_of_int (m_mouse_y this) + 0.5) / real_of_int (m_yres this)
          \<and> (real_of_int (m_mouse_y this) + 0.5) / real_of_int (m_yres this) \<le> 1)
     \<and> (0 < m_yres this \<and> m_yres this \<le> m_mouse_y this \<longrightarrow>
          1 < (real_of_int (m_mouse_y this) + 0.5) / real_of_int (m_yres this))"
    unfolding s t using normalised_pointer pointer_beyond_image by simp
qed

text \<open>
  C8, an instance: the constructed renderer (256 by 256) with the pointer at \<open>x = 100\<close>
  and \<open>y\<close> unset. "s" is \<open>100.5 / 256\<close>, which is in \<open>[0, 1]\<close>; "t" fails and the
  buffer is as it was.
\<close>

theorem mouse_attributes_witness:
  "m_attr_getters (toy\<lparr>m_mouse_x := 100\<rparr>) = attr_getters_table
   \<and> (0 :: int) \<le> 100 \<and> m_xres (toy\<lparr>m_mouse_x := 100\<rparr>) \<noteq> 0
   \<and> m_mouse_x (toy\<lparr>m_mouse_x := 100\<rparr>) < m_xres (toy\<lparr>m_mouse_x := 100\<rparr>)
   \<and> m_mouse_y (toy\<lparr>m_mouse_x := 100\<rparr>) = - 1
   \<and> get_attribute (toy\<lparr>m_mouse_x := 100\<rparr>) zero_ShaderGlobals False Hashes_mouse TypeFloat
        Hashes_s sevens = (True, sevens(0 := FloatCell (100.5 / 256)))
   \<and> (0 :: real) \<le> 100.5 / 256 \<and> (100.5 :: real) / 256 \<le> 1
   \<and> get_attribute (toy\<lparr>m_mouse_x := 100\<rparr>) zero_ShaderGlobals False Hashes_mouse TypeFloat
        Hashes_t sevens = (False, sevens)"
  using mouse_attributes
    [where this = "toy\<lparr>m_mouse_x := 100\<rparr>" and sg = zero_ShaderGlobals
       and derivatives = False and val = sevens]
  by (simp add: toy_def getters_ctor res_ctor mouse_ctor)

text \<open>
  C8 as stated fails: the pointer was tracked at \<open>x = 300\<close> in an image of 512 by 512
  and the renderer was then reconfigured to 256 by 256. The coordinate is not negative,
  the call succeeds, and the value it writes is \<open>601 / 512\<close>, which is not in \<open>[0, 1]\<close>.
\<close>

theorem mouse_value_exceeds_one:
  "0 \<le> m_mouse_x shrunk
   \<and> get_attribute shrunk zero_ShaderGlobals False Hashes_mouse TypeFloat Hashes_s sevens
       = (True, sevens(0 := FloatCell (601 / 512)))
   \<and> \<not> ((601 :: real) / 512 \<le> 1)"
proof -
  have tab: "m_attr_getters shrunk = attr_getters_table"
    by (simp add: shrunk_def camera_params_def Let_def toy_def getters_ctor)
  have state: "m_mouse_x shrunk = 300" "m_xres shrunk = 256"
    by (simp_all add: shrunk_def camera_params_def Let_def)
  have "dispatch shrunk False TypeFloat Hashes_s sevens = None"
    by (simp add: dispatch_def tab table_s)
  then have "get_attribute shrunk zero_ShaderGlobals False Hashes_mouse TypeFloat Hashes_s sevens
       = after_dispatch shrunk zero_ShaderGlobals False Hashes_mouse TypeFloat Hashes_s (- 1)
           sevens"
    by (simp add: get_attribute_def get_array_attribute_def)
  also have "\<dots> = (True, sevens(0 := FloatCell (601 / 512)))"
    by (simp add: after_dispatch_def state eq_BASETYPE_def Type_defs Hashes_defs)
  finally show ?thesis
    by (simp add: state)
qed

subsection \<open>C9: forward resolution consults the catalog only\<close>

text \<open>
  C9. The forward \<^verbatim>\<open>get_matrix\<close> by name (with or without time) returns false and
  leaves the result matrix as it was for every name that the catalog does not hold;
  on a renderer that was constructed and then set up by any sequence of calls, that is
  every name that no \<^verbatim>\<open>name_transform\<close> call of the sequence registered, the
  built-in names "camera", "screen", "NDC" and "raster" among them.
\<close>

theorem forward_lookup_catalog_only:
  "(m_named_xforms this name = None \<longrightarrow>
      get_matrix this result name = (False, result)
      \<and> get_matrix_time this result name time = (False, result))
   \<and> (name \<notin> set (registered_names calls) \<longrightarrow>
      get_matrix (run_setup (OSLToyRenderer version) calls) result name = (False, result)
      \<and> get_matrix_time (run_setup (OSLToyRenderer version) calls) result name time
          = (False, result))"
  by (simp add: get_matrix_def get_matrix_time_def named_xforms_run_setup named_xforms_ctor)

text \<open>
  C9, an instance: after a \<^verbatim>\<open>camera_params\<close> call and the registration of "myspace",
  the four built-in names are not in the catalog and "raster" fails to resolve forwards.
\<close>

theorem forward_lookup_catalog_only_witness:
  "Hashes_camera \<notin> set (registered_names
       [Camera_params makeIdentity Hashes_perspective 45 1 100 512 512,
        Name_transform ''myspace'' double_x])
   \<and> Hashes_screen \<notin> set (registered_names
       [Camera_params makeIdentity Hashes_perspective 45 1 100 512 512,
        Name_transform ''myspace'' double_x])
   \<and> Hashes_NDC \<notin> set (registered_names
       [Camera_params makeIdentity Hashes_perspective 45 1 100 512 512,
        Name_transform ''myspace'' double_x])
   \<and> Hashes_raster \<notin> set (registered_names
       [Camera_params makeIdentity Hashes_perspective 45 1 100 512 512,
        Name_transform ''myspace'' double_x])
   \<and> m_named_xforms toy Hashes_raster = None
   \<and> get_matrix toy old_result Hashes_raster = (False, old_result)
   \<and> get_matrix
        (run_setup (OSLToyRenderer 11300)
           [Camera_params makeIdentity Hashes_perspective 45 1 100 512 512,
            Name_transform ''myspace'' double_x])
        old_result Hashes_raster = (False, old_result)
   \<and> get_matrix_time
        (run_setup (OSLToyRenderer 11300)
           [Camera_params makeIdentity Hashes_perspective 45 1 100 512 512,
            Name_transform ''myspace'' double_x])
        old_result Hashes_raster 0 = (False, old_result)"
  using forward_lookup_catalog_only
    [where this = toy and name = Hashes_raster and result = old_result and time = 0
       and version = 11300
       and calls = "[Camera_params makeIdentity Hashes_perspective 45 1 100 512 512,
                     Name_transform ''myspace'' double_x]"]
  by (simp add: registered_names_def Hashes_defs toy_def named_xforms_ctor)

subsection \<open>C10: a failed query leaves the buffer alone\<close>

text \<open>
  C10. Whenever \<^verbatim>\<open>get_attribute\<close>, \<^verbatim>\<open>get_array_attribute\<close>, \<^verbatim>\<open>get_userdata\<close> or one
  of the getters of the dispatch table returns false, the output buffer is exactly
  what it was before the call, whatever the renderer's state and dispatch table.
\<close>

theorem failure_leaves_buffer:
  "(\<not> fst (get_attribute this sg derivatives object type name val) \<longrightarrow>
      snd (get_attribute this sg derivatives object type name val) = val)
   \<and> (\<not> fst (get_array_attribute this sg derivatives object type name index val) \<longrightarrow>
      snd (get_array_attribute this sg derivatives object type name index val) = val)
   \<and> (\<not> fst (get_userdata derivatives name type sg val) \<longrightarrow>
      snd (get_userdata derivatives name type sg val) = val)
   \<and> (\<not> fst (call_getter getter this derivatives type val) \<longrightarrow>
      snd (call_getter getter this derivatives type val) = val)"
  by (auto simp: get_attribute_def
      dest: array_attribute_declines userdata_declines getter_declines)

text \<open>
  C10, an instance on the constructed renderer: "camera:fov" asked for as an int (the
  entry declines), an array element of an unknown attribute, the userdata "s" asked
  for as an int, and the fov getter itself.
\<close>

theorem failure_leaves_buffer_witness:
  "\<not> fst (get_attribute toy zero_ShaderGlobals True [] TypeInt Hashes_camera_fov sevens)
   \<and> snd (get_attribute toy zero_ShaderGlobals True [] TypeInt Hashes_camera_fov sevens)
       = sevens
   \<and> \<not> fst (get_array_attribute toy zero_ShaderGlobals True [] TypeFloat Hashes_s 3 sevens)
   \<and> snd (get_array_attribute toy zero_ShaderGlobals True [] TypeFloat Hashes_s 3 sevens)
       = sevens
   \<and> \<not> fst (get_userdata True Hashes_s TypeInt zero_ShaderGlobals sevens)
   \<and> snd (get_userdata True Hashes_s TypeInt zero_ShaderGlobals sevens) = sevens
   \<and> \<not> fst (call_getter Get_camera_fov toy True TypeInt sevens)
   \<and> snd (call_getter Get_camera_fov toy True TypeInt sevens) = sevens"
proof -
  have fails:
    "\<not> fst (get_attribute toy zero_ShaderGlobals True [] TypeInt Hashes_camera_fov sevens)"
    "\<not> fst (get_array_attribute toy zero_ShaderGlobals True [] TypeFloat Hashes_s 3 sevens)"
    "\<not> fst (get_userdata True Hashes_s TypeInt zero_ShaderGlobals sevens)"
    "\<not> fst (call_getter Get_camera_fov toy True TypeInt sevens)"
    by (simp_all add: get_attribute_def get_array_attribute_def dispatch_def toy_def
        getters_ctor attr_getters_table_def get_camera_fov_def after_dispatch_def
        get_userdata_def Type_defs Hashes_defs)
  with failure_leaves_buffer
    [where this = toy and sg = zero_ShaderGlobals and derivatives = True
       and object = "[]" and type = TypeInt and name = Hashes_camera_fov and val = sevens]
    failure_leaves_buffer
    [where this = toy and sg = zero_ShaderGlobals and derivatives = True
       and object = "[]" and type = TypeFloat and name = Hashes_s and index = 3
       and val = sevens]
    failure_leaves_buffer
    [where sg = zero_ShaderGlobals and derivatives = True
       and type = TypeInt and name = Hashes_s and val = sevens
       and getter = Get_camera_fov and this = toy]
  show ?thesis by blast
qed

end
